theory Spec2Isabelle
  imports Main "HOL-Library.Word" "HOL-Library.AList"
begin

section \<open>The manager constructor (pkg/manager/manager.go)\<close>

text \<open>
  The collaborators of the manager (the REST configuration, the scheme, the REST mapper,
  the cache, the client, the recorder provider, the resource lock, the admission decoder
  and the metrics listener) are types of vendored libraries. They stay abstract here: each
  is a type variable, in this order:
  \<open>'cfg\<close>, \<open>'sch\<close>, \<open>'mp\<close>, \<open>'ca\<close>, \<open>'cl\<close>, \<open>'rp\<close>, \<open>'rl\<close>, \<open>'dec\<close>, \<open>'ls\<close>.
  A Go \<open>error\<close> is its message; a nil pointer or nil function value is \<open>None\<close>.
\<close>

type_synonym error = string

text \<open>The literal \<open>cache.Options{Scheme, Mapper, Resync, Namespace}\<close> built by \<open>New\<close>.\<close>

record ('sch, 'mp) cache_Options =
  co_Scheme :: "'sch option"
  co_Mapper :: "'mp"
  co_Resync :: "int option"
  co_Namespace :: string

text \<open>The literal \<open>client.Options{Scheme, Mapper}\<close> built by \<open>New\<close>.\<close>

record ('sch, 'mp) client_Options =
  cl_Scheme :: "'sch option"
  cl_Mapper :: "'mp"

text \<open>The literal \<open>leaderelection.Options{...}\<close> built by \<open>New\<close>.\<close>

record leaderelection_Options =
  le_LeaderElection :: bool
  le_LeaderElectionID :: string
  le_LeaderElectionNamespace :: string

type_synonym ('cfg, 'sch, 'mp, 'ca) NewCacheFunc =
  "'cfg \<Rightarrow> ('sch, 'mp) cache_Options \<Rightarrow> error + 'ca"

type_synonym ('cfg, 'sch, 'mp, 'ca, 'cl) NewClientFunc =
  "'ca \<Rightarrow> 'cfg \<Rightarrow> ('sch, 'mp) client_Options \<Rightarrow> error + 'cl"

text \<open>
  \<open>type Options struct\<close>. \<open>SyncPeriod\<close> is a \<open>*time.Duration\<close> (nanoseconds, or nil);
  the logger handed to \<open>newRecorderProvider\<close> is represented by its name.
\<close>

record ('cfg, 'sch, 'mp, 'ca, 'cl, 'rp, 'rl, 'dec, 'ls) Options =
  Scheme :: "'sch option"
  MapperProvider :: "('cfg \<Rightarrow> error + 'mp) option"
  SyncPeriod :: "int option"
  LeaderElection :: bool
  LeaderElectionNamespace :: string
  LeaderElectionID :: string
  Namespace :: string
  MetricsBindAddress :: string
  NewCache :: "('cfg, 'sch, 'mp, 'ca) NewCacheFunc option"
  NewClient :: "('cfg, 'sch, 'mp, 'ca, 'cl) NewClientFunc option"
  newRecorderProvider :: "('cfg \<Rightarrow> 'sch option \<Rightarrow> string \<Rightarrow> error + 'rp) option"
  newResourceLock :: "('cfg \<Rightarrow> 'rp \<Rightarrow> leaderelection_Options \<Rightarrow> error + 'rl) option"
  newAdmissionDecoder :: "('sch option \<Rightarrow> error + 'dec) option"
  newMetricsListener :: "(string \<Rightarrow> error + 'ls) option"

text \<open>
  The values \<open>setOptionsDefaults\<close> falls back to are package-level names of the vendored
  libraries (\<open>scheme.Scheme\<close>, \<open>apiutil.NewDiscoveryRESTMapper\<close>, \<open>cache.New\<close>, ...);
  \<open>defaultNewClient\<close> wraps \<open>client.New\<close>. They are taken as a parameter.
\<close>

record ('cfg, 'sch, 'mp, 'ca, 'cl, 'rp, 'rl, 'dec, 'ls) Defaults =
  scheme_Scheme :: "'sch"
  apiutil_NewDiscoveryRESTMapper :: "'cfg \<Rightarrow> error + 'mp"
  defaultNewClient :: "('cfg, 'sch, 'mp, 'ca, 'cl) NewClientFunc"
  cache_New :: "('cfg, 'sch, 'mp, 'ca) NewCacheFunc"
  internalrecorder_NewProvider :: "'cfg \<Rightarrow> 'sch option \<Rightarrow> string \<Rightarrow> error + 'rp"
  leaderelection_NewResourceLock :: "'cfg \<Rightarrow> 'rp \<Rightarrow> leaderelection_Options \<Rightarrow> error + 'rl"
  admission_NewDecoder :: "'sch option \<Rightarrow> error + 'dec"
  metrics_NewListener :: "string \<Rightarrow> error + 'ls"

text \<open>Go's \<open>if options.F == nil { options.F = d }\<close>.\<close>

definition or_default :: "'a option \<Rightarrow> 'a \<Rightarrow> 'a option" where
  "or_default field d = (if field = None then Some d else field)"

definition setOptionsDefaults ::
  "('cfg, 'sch, 'mp, 'ca, 'cl, 'rp, 'rl, 'dec, 'ls) Defaults \<Rightarrow>
   ('cfg, 'sch, 'mp, 'ca, 'cl, 'rp, 'rl, 'dec, 'ls) Options \<Rightarrow>
   ('cfg, 'sch, 'mp, 'ca, 'cl, 'rp, 'rl, 'dec, 'ls) Options" where
  "setOptionsDefaults d options =
     (let options = options\<lparr>Scheme := or_default (Scheme options) (scheme_Scheme d)\<rparr>;
          options = options\<lparr>MapperProvider :=
                      or_default (MapperProvider options) (apiutil_NewDiscoveryRESTMapper d)\<rparr>;
          options = options\<lparr>NewClient := or_default (NewClient options) (defaultNewClient d)\<rparr>;
          options = options\<lparr>NewCache := or_default (NewCache options) (cache_New d)\<rparr>;
          options = options\<lparr>newRecorderProvider :=
                      or_default (newRecorderProvider options) (internalrecorder_NewProvider d)\<rparr>;
          options = options\<lparr>newResourceLock :=
                      or_default (newResourceLock options) (leaderelection_NewResourceLock d)\<rparr>;
          options = options\<lparr>newAdmissionDecoder :=
                      or_default (newAdmissionDecoder options) (admission_NewDecoder d)\<rparr>;
          options = options\<lparr>newMetricsListener :=
                      or_default (newMetricsListener options) (metrics_NewListener d)\<rparr>
      in options)"

text \<open>
  \<open>controllerManager\<close>, as \<open>New\<close> fills it. The channels \<open>errChan\<close>, \<open>internalStop\<close> and
  \<open>internalStopper\<close> are fresh and carry no data; they are left out.
\<close>

record ('cfg, 'sch, 'mp, 'ca, 'cl, 'rp, 'rl, 'dec, 'ls) controllerManager =
  cm_config :: "'cfg"
  cm_scheme :: "'sch option"
  cm_admissionDecoder :: "'dec"
  cm_cache :: "'ca"
  cm_fieldIndexes :: "'ca"
  cm_client :: "'cl"
  cm_recorderProvider :: "'rp"
  cm_resourceLock :: "'rl"
  cm_mapper :: "'mp"
  cm_metricsListener :: "'ls"

text \<open>
  What \<open>New\<close> does besides returning: the steps it has taken, in order. \<open>Panic\<close> is the
  call of a nil function value.
\<close>

datatype step =
    SetDefaults
  | CallMapperProvider
  | LogError string error
  | CallNewCache
  | CallNewClient
  | CallNewRecorderProvider
  | CallNewResourceLock
  | CallNewAdmissionDecoder
  | CallNewMetricsListener

datatype 'm returned = Return "'m option" "error option" | Panic

text \<open>Calling a function-valued field: nil panics, an error is returned to the caller.\<close>

definition call ::
  "'f option \<Rightarrow> ('f \<Rightarrow> error + 'a) \<Rightarrow> step list \<Rightarrow>
   (step list \<Rightarrow> 'a \<Rightarrow> step list \<times> 'm returned) \<Rightarrow> step list \<times> 'm returned" where
  "call field app trace k =
     (case field of
        None \<Rightarrow> (trace, Panic)
      | Some f \<Rightarrow>
          (case app f of
             Inl err \<Rightarrow> (trace, Return None (Some err))
           | Inr v \<Rightarrow> k trace v))"

definition New ::
  "('cfg, 'sch, 'mp, 'ca, 'cl, 'rp, 'rl, 'dec, 'ls) Defaults \<Rightarrow> 'cfg option \<Rightarrow>
   ('cfg, 'sch, 'mp, 'ca, 'cl, 'rp, 'rl, 'dec, 'ls) Options \<Rightarrow>
   step list \<times> ('cfg, 'sch, 'mp, 'ca, 'cl, 'rp, 'rl, 'dec, 'ls) controllerManager returned" where
  "New d config options =
     (case config of
        None \<Rightarrow> ([], Return None (Some ''must specify Config''))
      | Some cfg \<Rightarrow>
          (let options = setOptionsDefaults d options in
           case MapperProvider options of
             None \<Rightarrow> ([SetDefaults, CallMapperProvider], Panic)
           | Some mapperProvider \<Rightarrow>
           (case mapperProvider cfg of
              Inl err \<Rightarrow>
                ([SetDefaults, CallMapperProvider,
                  LogError ''Failed to get API Group-Resources'' err],
                 Return None (Some err))
            | Inr mapper \<Rightarrow>
           call (NewCache options)
             (\<lambda>f. f cfg \<lparr>co_Scheme = Scheme options, co_Mapper = mapper,
                         co_Resync = SyncPeriod options, co_Namespace = Namespace options\<rparr>)
             [SetDefaults, CallMapperProvider, CallNewCache]
           (\<lambda>trace cache.
           call (NewClient options)
             (\<lambda>f. f cache cfg \<lparr>cl_Scheme = Scheme options, cl_Mapper = mapper\<rparr>)
             (trace @ [CallNewClient])
           (\<lambda>trace writeObj.
           call (newRecorderProvider options)
             (\<lambda>f. f cfg (Scheme options) ''events'')
             (trace @ [CallNewRecorderProvider])
           (\<lambda>trace recorderProvider.
           call (newResourceLock options)
             (\<lambda>f. f cfg recorderProvider
                    \<lparr>le_LeaderElection = LeaderElection options,
                     le_LeaderElectionID = LeaderElectionID options,
                     le_LeaderElectionNamespace = LeaderElectionNamespace options\<rparr>)
             (trace @ [CallNewResourceLock])
           (\<lambda>trace resourceLock.
           call (newAdmissionDecoder options)
             (\<lambda>f. f (Scheme options))
             (trace @ [CallNewAdmissionDecoder])
           (\<lambda>trace admissionDecoder.
           call (newMetricsListener options)
             (\<lambda>f. f (MetricsBindAddress options))
             (trace @ [CallNewMetricsListener])
           (\<lambda>trace metricsListener.
             (trace,
              Return (Some \<lparr>cm_config = cfg,
                            cm_scheme = Scheme options,
                            cm_admissionDecoder = admissionDecoder,
                            cm_cache = cache,
                            cm_fieldIndexes = cache,
                            cm_client = writeObj,
                            cm_recorderProvider = recorderProvider,
                            cm_resourceLock = resourceLock,
                            cm_mapper = mapper,
                            cm_metricsListener = metricsListener\<rparr>)
                     None))))))))))"

section \<open>Properties of the manager constructor\<close>

lemma or_default_case:
  "or_default field d = (case field of None \<Rightarrow> Some d | Some v \<Rightarrow> Some v)"
  by (cases field) (simp_all add: or_default_def)

text \<open>
  C9. For every options value, \<open>New\<close> called with a nil configuration returns a nil manager
  together with the error "must specify Config", and it has taken no step before that:
  no defaulting of the options and no call of a constructor.
\<close>

theorem New_nil_config:
  "New d None options = ([], Return None (Some ''must specify Config''))"
  by (simp add: New_def)

text \<open>
  C10. \<open>setOptionsDefaults\<close> touches a field only where it is nil: each of the eight
  defaulted fields keeps a value the caller supplied and receives its default otherwise,
  and every other field (\<open>SyncPeriod\<close> included, nil or not) is returned as it came.
\<close>

theorem setOptionsDefaults_frame:
  "Scheme (setOptionsDefaults d options) =
     (case Scheme options of None \<Rightarrow> Some (scheme_Scheme d) | Some v \<Rightarrow> Some v)
   \<and> MapperProvider (setOptionsDefaults d options) =
     (case MapperProvider options of
        None \<Rightarrow> Some (apiutil_NewDiscoveryRESTMapper d) | Some v \<Rightarrow> Some v)
   \<and> NewClient (setOptionsDefaults d options) =
     (case NewClient options of None \<Rightarrow> Some (defaultNewClient d) | Some v \<Rightarrow> Some v)
   \<and> NewCache (setOptionsDefaults d options) =
     (case NewCache options of None \<Rightarrow> Some (cache_New d) | Some v \<Rightarrow> Some v)
   \<and> newRecorderProvider (setOptionsDefaults d options) =
     (case newRecorderProvider options of
        None \<Rightarrow> Some (internalrecorder_NewProvider d) | Some v \<Rightarrow> Some v)
   \<and> newResourceLock (setOptionsDefaults d options) =
     (case newResourceLock options of
        None \<Rightarrow> Some (leaderelection_NewResourceLock d) | Some v \<Rightarrow> Some v)
   \<and> newAdmissionDecoder (setOptionsDefaults d options) =
     (case newAdmissionDecoder options of
        None \<Rightarrow> Some (admission_NewDecoder d) | Some v \<Rightarrow> Some v)
   \<and> newMetricsListener (setOptionsDefaults d options) =
     (case newMetricsListener options of
        None \<Rightarrow> Some (metrics_NewListener d) | Some v \<Rightarrow> Some v)
   \<and> SyncPeriod (setOptionsDefaults d options) = SyncPeriod options
   \<and> LeaderElection (setOptionsDefaults d options) = LeaderElection options
   \<and> LeaderElectionNamespace (setOptionsDefaults d options) = LeaderElectionNamespace options
   \<and> LeaderElectionID (setOptionsDefaults d options) = LeaderElectionID options
   \<and> Namespace (setOptionsDefaults d options) = Namespace options
   \<and> MetricsBindAddress (setOptionsDefaults d options) = MetricsBindAddress options"
  by (simp add: setOptionsDefaults_def Let_def or_default_case)

end
